theory Spec2Isabelle
  imports Complex_Main "HOL-Library.Word" "HOL-Library.AList" "HOL-Library.Sublist"
    "HOL-Library.Monad_Syntax"
begin

section \<open>Values, identifiers and documents\<close>

text \<open>
  The store's native identifier (\<^verbatim>\<open>bson.ObjectId\<close>) holds a byte string (\<^verbatim>\<open>binary\<close>),
  12 bytes when the store generates it. Its string form is the bytes in lower-case
  hexadecimal (\<^verbatim>\<open>binascii.hexlify\<close>). The constructor on a string is
  \<^verbatim>\<open>
      if len(oid) == 24:
          try:
              self.__id = bytes.fromhex(oid)
          except (TypeError, ValueError):
              _raise_invalid_id(oid)
      else:
          _raise_invalid_id(oid)
  \<close>
  and \<^verbatim>\<open>bytes.fromhex\<close> reads pairs of hexadecimal digits (either case) and skips ASCII
  whitespace before each pair and at the end. So the constructor also accepts a string of
  24 characters with whitespace between the pairs, and the identifier it gives then has
  fewer than 12 bytes.
\<close>

type_synonym byte = "8 word"

type_synonym ObjectId = "byte list"

definition hex_char :: "nat \<Rightarrow> char" where
  "hex_char d = (if d < 10 then char_of (48 + d) else char_of (87 + d))"

fun hexlify :: "byte list \<Rightarrow> string" where
  "hexlify [] = []"
| "hexlify (b # bs) = hex_char (unat b div 16) # hex_char (unat b mod 16) # hexlify bs"

definition str_ObjectId :: "ObjectId \<Rightarrow> string" where
  "str_ObjectId oid = hexlify oid"

definition hex_val :: "char \<Rightarrow> nat option" where
  "hex_val c =
     (let n = (of_char c :: nat) in
      if 48 \<le> n \<and> n \<le> 57 then Some (n - 48)
      else if 97 \<le> n \<and> n \<le> 102 then Some (n - 87)
      else if 65 \<le> n \<and> n \<le> 70 then Some (n - 55)
      else None)"

text \<open>ASCII whitespace: space, tab, line feed, vertical tab, form feed, carriage return.\<close>

definition is_space :: "char \<Rightarrow> bool" where
  "is_space c = (let n = (of_char c :: nat) in n = 32 \<or> (9 \<le> n \<and> n \<le> 13))"

text \<open>\<^verbatim>\<open>bytes.fromhex\<close>; \<open>None\<close> where it raises ValueError.\<close>

fun fromhex :: "string \<Rightarrow> byte list option" where
  "fromhex [] = Some []"
| "fromhex (c # cs) =
     (if is_space c then fromhex cs
      else
        (case hex_val c of
           None \<Rightarrow> None
         | Some hi \<Rightarrow>
             (case cs of
                [] \<Rightarrow> None
              | d # ds \<Rightarrow>
                  (case hex_val d of
                     None \<Rightarrow> None
                   | Some lo \<Rightarrow>
                       (case fromhex ds of
                          None \<Rightarrow> None
                        | Some bs \<Rightarrow> Some (of_nat (16 * hi + lo) # bs))))))"

definition ObjectId_of_str :: "string \<Rightarrow> ObjectId option" where
  "ObjectId_of_str s = (if length s = 24 then fromhex s else None)"

text \<open>
  The identifiers the store generates are modelled by a counter of 96 bits; \<open>oid_of\<close>
  gives the 12 bytes of a counter value, most significant byte first.
\<close>

definition oid_of :: "96 word \<Rightarrow> ObjectId" where
  "oid_of w = map (\<lambda>i. ucast (drop_bit (8 * i) w)) (rev [0..<12])"

text \<open>
  Python floats are carried through the program unchanged and only compared with 0, so a
  finite float is represented by the rational it denotes.
\<close>

datatype pyfloat = Finite rat | PosInf | NegInf | NaN

fun float_ge0 :: "pyfloat \<Rightarrow> bool" where
  "float_ge0 (Finite r) = (0 \<le> r)"
| "float_ge0 PosInf = True"
| "float_ge0 NegInf = False"
| "float_ge0 NaN = False"

datatype pyval =
    PNone
  | PFloat pyfloat
  | PStr string
  | POid ObjectId
  | PUrl string
  | PList "pyval list"

text \<open>
  \<open>PUrl\<close> is a URL object of the validation library (the value of an \<^verbatim>\<open>HttpUrl\<close>
  field), which is not a string. A Python dict with string keys, in insertion order:
\<close>

type_synonym doc = "(string \<times> pyval) list"

text \<open>
  What a request can end in instead of a result: an \<^verbatim>\<open>HTTPException\<close> raised by a
  handler (status and detail), the framework's validation error for a request (status
  422), a failure of the store, and any other unhandled exception (status 500).
  \<open>Unmodelled\<close> marks an input on which this model does not say what the program does.
\<close>

datatype error =
    HTTPException nat string
  | ValidationError
  | StorageError
  | ServerError
  | Unmodelled

text \<open>
  \<^verbatim>\<open>str(v)\<close>. The string form of a float or of a list is outside this model
  (\<open>None\<close>).
\<close>

fun py_str :: "pyval \<Rightarrow> string option" where
  "py_str (POid w) = Some (str_ObjectId w)"
| "py_str (PStr s) = Some s"
| "py_str PNone = Some ''None''"
| "py_str (PUrl u) = Some u"
| "py_str (PFloat f) = None"
| "py_str (PList vs) = None"

section \<open>Serialization (main.py, serialize\_doc)\<close>

text \<open>
  \<^verbatim>\<open>
  def serialize_doc(doc: dict) -> dict:
      if not doc:
          return doc
      d = {**doc}
      if "_id" in d:
          d["id"] = str(d.pop("_id"))
      if "listing_id" in d and isinstance(d["listing_id"], ObjectId):
          d["listing_id"] = str(d["listing_id"])
      return d
  \<close>
  The argument is \<open>None\<close> when a lookup found nothing. The result is
  \<open>Inl Unmodelled\<close> only where \<open>py_str\<close> is.
\<close>

definition pop_id :: "doc \<Rightarrow> error + doc" where
  "pop_id d =
     (case map_of d ''_id'' of
        None \<Rightarrow> Inr d
      | Some v \<Rightarrow>
          (case py_str v of
             None \<Rightarrow> Inl Unmodelled
           | Some s \<Rightarrow> Inr (AList.update ''id'' (PStr s) (AList.delete ''_id'' d))))"

definition conv_listing_id :: "doc \<Rightarrow> doc" where
  "conv_listing_id d =
     (case map_of d ''listing_id'' of
        Some (POid w) \<Rightarrow> AList.update ''listing_id'' (PStr (str_ObjectId w)) d
      | _ \<Rightarrow> d)"

definition serialize_doc :: "doc option \<Rightarrow> error + doc option" where
  "serialize_doc doc =
     (case doc of
        None \<Rightarrow> Inr None
      | Some d0 \<Rightarrow>
          if d0 = [] then Inr (Some d0)
          else (case pop_id d0 of
                  Inl e \<Rightarrow> Inl e
                | Inr d \<Rightarrow> Inr (Some (conv_listing_id d))))"

section \<open>The document store\<close>

text \<open>
  The process-wide handle \<^verbatim>\<open>db\<close>: one list of documents per collection name, in
  insertion order. \<open>reachable\<close> is false when the store cannot be reached, in which
  case every operation on it fails with \<open>StorageError\<close>. \<open>next_oid\<close> is the
  counter of generated identifiers: the next insert gets \<open>oid_of (next_oid s)\<close>. \<open>trace\<close> records every read and
  write that reaches the store.
\<close>

datatype access = Read string | Write string

record store =
  reachable :: bool
  collections :: "string \<Rightarrow> doc list"
  next_oid :: "96 word"
  trace :: "access list"

definition has_id :: "ObjectId \<Rightarrow> doc \<Rightarrow> bool" where
  "has_id oid d = (map_of d ''_id'' = Some (POid oid))"

text \<open>
  \<^verbatim>\<open>db[c].find_one({"_id": oid})\<close>: the first document of the collection with that
  identifier. An identifier of fewer than 12 bytes is none that the store has generated,
  and the lookup finds nothing for it.
\<close>

definition find_one :: "string \<Rightarrow> ObjectId \<Rightarrow> store \<Rightarrow> (error + doc option) \<times> store" where
  "find_one c oid s =
     (if \<not> reachable s then (Inl StorageError, s)
      else (Inr (List.find (has_id oid) (collections s c)),
            s\<lparr>trace := trace s @ [Read c]\<rparr>))"

subsection \<open>Query filters\<close>

text \<open>
  The filters the handlers build: \<^verbatim>\<open>{field: value}\<close>, \<^verbatim>\<open>{field: {"$in": [...]}}\<close>,
  \<^verbatim>\<open>{field: {"$regex": p, "$options": o}}\<close> and \<^verbatim>\<open>{"$or": [{field: cond}, ...]}\<close>.
  All entries of a filter must hold.
\<close>

datatype cond = Eq pyval | In "pyval list" | Regex string string

datatype qval = QCond cond | QOr "(string \<times> cond) list list"

type_synonym mfilter = "(string \<times> qval) list"

text \<open>
  Regular expressions. The store matches with PCRE; the fragment modelled here is a
  sequence of ordinary characters, each matching itself (up to ASCII case under option
  \<open>i\<close>), and \<open>.\<close>, matching any character but a newline. The match is unanchored. A
  pattern with any other metacharacter, or an option other than \<open>i\<close>, is outside the
  model.
\<close>

definition metachars :: string where
  "metachars = [CHR 0x5C, CHR 0x5E, CHR ''$'', CHR ''['', CHR '']'', CHR ''|'', CHR ''('', CHR '')'',
                CHR ''?'', CHR ''*'', CHR ''+'', CHR ''{'', CHR ''}'']"

datatype atom = Lit char | Dot

definition regex_compile :: "string \<Rightarrow> atom list option" where
  "regex_compile p =
     (if list_ex (\<lambda>c. c \<in> set metachars) p then None
      else Some (map (\<lambda>c. if c = CHR ''.'' then Dot else Lit c) p))"

definition to_lower :: "char \<Rightarrow> char" where
  "to_lower c =
     (let n = (of_char c :: nat) in if 65 \<le> n \<and> n \<le> 90 then char_of (n + 32) else c)"

fun atom_match :: "bool \<Rightarrow> atom \<Rightarrow> char \<Rightarrow> bool" where
  "atom_match ci (Lit a) c = (if ci then to_lower a = to_lower c else a = c)"
| "atom_match ci Dot c = (c \<noteq> CHR 0x0A)"

fun match_here :: "bool \<Rightarrow> atom list \<Rightarrow> string \<Rightarrow> bool" where
  "match_here ci [] s = True"
| "match_here ci (a # as) [] = False"
| "match_here ci (a # as) (c # cs) = (atom_match ci a c \<and> match_here ci as cs)"

fun search :: "bool \<Rightarrow> atom list \<Rightarrow> string \<Rightarrow> bool" where
  "search ci as [] = match_here ci as []"
| "search ci as (c # cs) = (match_here ci as (c # cs) \<or> search ci as cs)"

definition regex_modelled :: "string \<Rightarrow> string \<Rightarrow> bool" where
  "regex_modelled p opts = (regex_compile p \<noteq> None \<and> list_all (\<lambda>c. c = CHR ''i'') opts)"

definition regex_search :: "string \<Rightarrow> string \<Rightarrow> string \<Rightarrow> bool" where
  "regex_search p opts s =
     (case regex_compile p of
        None \<Rightarrow> False
      | Some as \<Rightarrow> search (CHR ''i'' \<in> set opts) as s)"

fun str_matches :: "string \<Rightarrow> string \<Rightarrow> pyval \<Rightarrow> bool" where
  "str_matches p opts (PStr s) = regex_search p opts s"
| "str_matches p opts v = False"

text \<open>
  A condition on the value of a field (\<open>None\<close>: the document has no such field). On an
  array field a condition holds when it holds of the array or of one of its elements.
\<close>

fun cond_match :: "cond \<Rightarrow> pyval option \<Rightarrow> bool" where
  "cond_match (Eq v) None = (v = PNone)"
| "cond_match (Eq v) (Some (PList xs)) = (PList xs = v \<or> v \<in> set xs)"
| "cond_match (Eq v) (Some x) = (x = v)"
| "cond_match (In vs) None = (PNone \<in> set vs)"
| "cond_match (In vs) (Some (PList xs)) = (PList xs \<in> set vs \<or> list_ex (\<lambda>e. e \<in> set vs) xs)"
| "cond_match (In vs) (Some x) = (x \<in> set vs)"
| "cond_match (Regex p opts) None = False"
| "cond_match (Regex p opts) (Some (PList xs)) = list_ex (str_matches p opts) xs"
| "cond_match (Regex p opts) (Some x) = str_matches p opts x"

fun cond_modelled :: "cond \<Rightarrow> bool" where
  "cond_modelled (Regex p opts) = regex_modelled p opts"
| "cond_modelled c = True"

definition dict_match :: "(string \<times> cond) list \<Rightarrow> doc \<Rightarrow> bool" where
  "dict_match cs d = list_all (\<lambda>(k, c). cond_match c (map_of d k)) cs"

fun qval_match :: "string \<Rightarrow> qval \<Rightarrow> doc \<Rightarrow> bool" where
  "qval_match k (QCond c) d = cond_match c (map_of d k)"
| "qval_match k (QOr ds) d = list_ex (\<lambda>cs. dict_match cs d) ds"

definition doc_matches :: "mfilter \<Rightarrow> doc \<Rightarrow> bool" where
  "doc_matches flt d = list_all (\<lambda>(k, q). qval_match k q d) flt"

fun qval_modelled :: "qval \<Rightarrow> bool" where
  "qval_modelled (QCond c) = cond_modelled c"
| "qval_modelled (QOr ds) = list_all (list_all (\<lambda>(k, c). cond_modelled c)) ds"

definition filter_modelled :: "mfilter \<Rightarrow> bool" where
  "filter_modelled flt = list_all (\<lambda>(k, q). qval_modelled q) flt"

subsection \<open>Persistence helpers\<close>

text \<open>
  What the store can hold. The driver encodes a document before it sends it; a URL
  object has no encoding, and an insert of a document that carries one raises
  (\<^verbatim>\<open>bson.errors.InvalidDocument\<close>) with nothing written.
\<close>

fun bson_encodable :: "pyval \<Rightarrow> bool" where
  "bson_encodable (PUrl u) = False"
| "bson_encodable (PList vs) = list_all bson_encodable vs"
| "bson_encodable v = True"

definition storable :: "doc \<Rightarrow> bool" where
  "storable data = list_all (\<lambda>(k, v). bson_encodable v) data"

text \<open>
  Modelled from the spec: \<^verbatim>\<open>create_document\<close> of the module \<^verbatim>\<open>database\<close>, which is
  not among the sources. Section 4.2: it inserts a validated record and returns the
  newly generated identifier, with one write to the store, and fails with StorageError
  if the store is unreachable. The identifier of a stored record is unique (section 3):
  an insert whose generated identifier is already taken in the collection is refused by
  the store (StorageError, section 7: operation failed) and writes nothing. The record
  is given here as the dict of its fields, as \<^verbatim>\<open>model_dump()\<close> gives it
  (\<open>Listing_model_dump\<close>, \<open>Order_model_dump\<close> below); a dict that the store cannot hold
  makes the insert raise (an unhandled exception, \<open>ServerError\<close>).
\<close>

definition create_document :: "string \<Rightarrow> doc \<Rightarrow> store \<Rightarrow> (error + string) \<times> store" where
  "create_document c data s =
     (if \<not> reachable s then (Inl StorageError, s)
      else if \<not> storable data then (Inl ServerError, s)
      else
        let oid = oid_of (next_oid s);
            s1 = s\<lparr>next_oid := next_oid s + 1, trace := trace s @ [Write c]\<rparr>
        in if list_ex (has_id oid) (collections s c) then (Inl StorageError, s1)
           else (Inr (str_ObjectId oid),
                 s1\<lparr>collections := (collections s)
                       (c := collections s c @ [AList.update ''_id'' (POid oid) data])\<rparr>))"

text \<open>
  Modelled from the spec: \<^verbatim>\<open>get_documents\<close> of the module \<^verbatim>\<open>database\<close>, which is
  not among the sources. Section 4.2: it returns up to \<open>limit\<close> matching records, in
  insertion order; the empty filter matches every record; it fails with StorageError if
  the store is unreachable.
\<close>

definition get_documents :: "string \<Rightarrow> mfilter \<Rightarrow> int \<Rightarrow> store \<Rightarrow> (error + doc list) \<times> store" where
  "get_documents c flt limit s =
     (if \<not> reachable s then (Inl StorageError, s)
      else if \<not> filter_modelled flt then (Inl Unmodelled, s)
      else (Inr (take (nat limit) (filter (doc_matches flt) (collections s c))),
            s\<lparr>trace := trace s @ [Read c]\<rparr>))"

section \<open>Schemas (schemas.py) and response models (main.py)\<close>

text \<open>
  The typed records. An \<^verbatim>\<open>EmailStr\<close> value is a string. An \<^verbatim>\<open>HttpUrl\<close> value is a
  URL object; \<open>url_str\<close> is its string form.
\<close>

datatype HttpUrl = HttpUrl string

fun url_str :: "HttpUrl \<Rightarrow> string" where
  "url_str (HttpUrl u) = u"

record Listing =
  title :: string
  type :: string
  description :: string
  price :: pyfloat
  tags :: "string list"
  seller_name :: string
  seller_email :: string
  demo_url :: "HttpUrl option"
  thumbnail_url :: "HttpUrl option"

record Order =
  listing_id :: string
  buyer_name :: string
  buyer_email :: string
  status :: string

record ListingOut =
  id' :: string
  title :: string
  type :: string
  description :: string
  price :: pyfloat
  tags :: "string list"
  seller_name :: string
  seller_email :: string
  demo_url :: "string option"
  thumbnail_url :: "string option"

record OrderOut =
  id' :: string
  listing_id :: string
  buyer_name :: string
  buyer_email :: string
  status :: string

subsection \<open>Reading fields of a dict\<close>

text \<open>
  Each reader gives \<open>None\<close> where validation of the field fails. A \<^verbatim>\<open>str\<close> field
  takes a string only; a \<^verbatim>\<open>float\<close> field takes a number (a numeric string is
  coerced by the library: outside this model, see \<open>float_unmodelled\<close>); a
  \<^verbatim>\<open>List[str]\<close> field with a default takes a list of strings or is absent; an
  \<^verbatim>\<open>Optional[str]\<close> field with default \<^verbatim>\<open>None\<close> takes a string, \<^verbatim>\<open>None\<close>
  or is absent. Fields the model does not declare are ignored.
\<close>

definition get_str :: "doc \<Rightarrow> string \<Rightarrow> string option" where
  "get_str d k = (case map_of d k of Some (PStr s) \<Rightarrow> Some s | _ \<Rightarrow> None)"

definition get_float :: "doc \<Rightarrow> string \<Rightarrow> pyfloat option" where
  "get_float d k = (case map_of d k of Some (PFloat f) \<Rightarrow> Some f | _ \<Rightarrow> None)"

definition float_unmodelled :: "doc \<Rightarrow> string \<Rightarrow> bool" where
  "float_unmodelled d k = (case map_of d k of Some (PStr s) \<Rightarrow> True | _ \<Rightarrow> False)"

fun strs_of :: "pyval list \<Rightarrow> string list option" where
  "strs_of [] = Some []"
| "strs_of (PStr s # vs) = (case strs_of vs of None \<Rightarrow> None | Some ss \<Rightarrow> Some (s # ss))"
| "strs_of (v # vs) = None"

definition get_str_list :: "doc \<Rightarrow> string \<Rightarrow> string list option" where
  "get_str_list d k =
     (case map_of d k of
        None \<Rightarrow> Some []
      | Some (PList vs) \<Rightarrow> strs_of vs
      | Some v \<Rightarrow> None)"

definition get_opt_str :: "doc \<Rightarrow> string \<Rightarrow> string option option" where
  "get_opt_str d k =
     (case map_of d k of
        None \<Rightarrow> Some None
      | Some PNone \<Rightarrow> Some None
      | Some (PStr s) \<Rightarrow> Some (Some s)
      | Some v \<Rightarrow> None)"

subsection \<open>Response models\<close>

text \<open>
  \<^verbatim>\<open>ListingOut(**d)\<close> and \<^verbatim>\<open>OrderOut(**d)\<close>. With \<^verbatim>\<open>d = None\<close> the call raises
  TypeError, with a dict that fails validation it raises the library's error; inside a
  handler either one is an unhandled exception (\<open>ServerError\<close>).
\<close>

definition ListingOut_of :: "doc option \<Rightarrow> error + ListingOut" where
  "ListingOut_of dopt =
     (case dopt of
        None \<Rightarrow> Inl ServerError
      | Some d \<Rightarrow>
          if float_unmodelled d ''price'' then Inl Unmodelled
          else
            (case do {
                i \<leftarrow> get_str d ''id'';
                t \<leftarrow> get_str d ''title'';
                ty \<leftarrow> get_str d ''type'';
                de \<leftarrow> get_str d ''description'';
                pr \<leftarrow> get_float d ''price'';
                tg \<leftarrow> get_str_list d ''tags'';
                sn \<leftarrow> get_str d ''seller_name'';
                se \<leftarrow> get_str d ''seller_email'';
                du \<leftarrow> get_opt_str d ''demo_url'';
                tu \<leftarrow> get_opt_str d ''thumbnail_url'';
                Some \<lparr>ListingOut.id' = i, title = t, type = ty, description = de, price = pr,
                      tags = tg, seller_name = sn, seller_email = se, demo_url = du,
                      thumbnail_url = tu\<rparr>
              } of
               None \<Rightarrow> Inl ServerError
             | Some out \<Rightarrow> Inr out))"

definition OrderOut_of :: "doc option \<Rightarrow> error + OrderOut" where
  "OrderOut_of dopt =
     (case dopt of
        None \<Rightarrow> Inl ServerError
      | Some d \<Rightarrow>
          (case do {
              i \<leftarrow> get_str d ''id'';
              l \<leftarrow> get_str d ''listing_id'';
              bn \<leftarrow> get_str d ''buyer_name'';
              be \<leftarrow> get_str d ''buyer_email'';
              st \<leftarrow> get_str d ''status'';
              Some \<lparr>OrderOut.id' = i, listing_id = l, buyer_name = bn, buyer_email = be,
                    status = st\<rparr>
            } of
             None \<Rightarrow> Inl ServerError
           | Some out \<Rightarrow> Inr out))"

definition listing_response :: "doc option \<Rightarrow> error + ListingOut" where
  "listing_response doc =
     (case serialize_doc doc of Inl e \<Rightarrow> Inl e | Inr d \<Rightarrow> ListingOut_of d)"

definition order_response :: "doc option \<Rightarrow> error + OrderOut" where
  "order_response doc =
     (case serialize_doc doc of Inl e \<Rightarrow> Inl e | Inr d \<Rightarrow> OrderOut_of d)"

text \<open>A list comprehension over a fallible function stops at the first exception.\<close>

fun map_result :: "('a \<Rightarrow> error + 'b) \<Rightarrow> 'a list \<Rightarrow> error + 'b list" where
  "map_result f [] = Inr []"
| "map_result f (x # xs) =
     (case f x of
        Inl e \<Rightarrow> Inl e
      | Inr y \<Rightarrow> (case map_result f xs of Inl e \<Rightarrow> Inl e | Inr ys \<Rightarrow> Inr (y # ys)))"

subsection \<open>model\_dump\<close>

text \<open>
  \<^verbatim>\<open>payload.model_dump()\<close>: the dict of the fields, each with the value the record
  holds; the value of a URL field is the URL object.
\<close>

fun opt_val :: "HttpUrl option \<Rightarrow> pyval" where
  "opt_val None = PNone"
| "opt_val (Some (HttpUrl u)) = PUrl u"

definition Listing_model_dump :: "Listing \<Rightarrow> doc" where
  "Listing_model_dump p =
     [(''title'', PStr (Listing.title p)),
      (''type'', PStr (Listing.type p)),
      (''description'', PStr (Listing.description p)),
      (''price'', PFloat (Listing.price p)),
      (''tags'', PList (map PStr (Listing.tags p))),
      (''seller_name'', PStr (Listing.seller_name p)),
      (''seller_email'', PStr (Listing.seller_email p)),
      (''demo_url'', opt_val (Listing.demo_url p)),
      (''thumbnail_url'', opt_val (Listing.thumbnail_url p))]"

definition Order_model_dump :: "Order \<Rightarrow> doc" where
  "Order_model_dump p =
     [(''listing_id'', PStr (Order.listing_id p)),
      (''buyer_name'', PStr (Order.buyer_name p)),
      (''buyer_email'', PStr (Order.buyer_email p)),
      (''status'', PStr (Order.status p))]"

section \<open>Handlers (main.py)\<close>

text \<open>
  Every handler takes the store and returns its result, or the exception it raises,
  with the store after the call.
  \<^verbatim>\<open>
  def create_listing(payload: Listing):
      inserted_id = create_document("listing", payload)
      doc = db["listing"].find_one({"_id": ObjectId(inserted_id)})
      return ListingOut(**serialize_doc(doc))
  \<close>
\<close>

definition create_listing :: "Listing \<Rightarrow> store \<Rightarrow> (error + ListingOut) \<times> store" where
  "create_listing payload s =
     (case create_document ''listing'' (Listing_model_dump payload) s of
        (Inl e, s1) \<Rightarrow> (Inl e, s1)
      | (Inr inserted_id, s1) \<Rightarrow>
          (case ObjectId_of_str inserted_id of
             None \<Rightarrow> (Inl ServerError, s1)
           | Some oid \<Rightarrow>
               (case find_one ''listing'' oid s1 of
                  (Inl e, s2) \<Rightarrow> (Inl e, s2)
                | (Inr doc, s2) \<Rightarrow> (listing_response doc, s2))))"

text \<open>
  \<^verbatim>\<open>limit: int = Query(50, ge=1, le=100)\<close>: the default when the parameter is absent,
  and the framework's validation error when it is out of range; the handler's body does
  not run then.
\<close>

definition Query_limit :: "int option \<Rightarrow> error + int" where
  "Query_limit l =
     (case l of
        None \<Rightarrow> Inr 50
      | Some n \<Rightarrow> if 1 \<le> n \<and> n \<le> 100 then Inr n else Inl ValidationError)"

text \<open>\<^verbatim>\<open>if x:\<close> on an optional string: false for \<^verbatim>\<open>None\<close> and for the empty string.\<close>

fun given :: "string option \<Rightarrow> string option" where
  "given None = None"
| "given (Some x) = (if x = [] then None else Some x)"

text \<open>
  \<^verbatim>\<open>
      filter_dict: dict = {}
      if type:
          filter_dict["type"] = type
      if tag:
          filter_dict["tags"] = {"$in": [tag]}
      if q:
          regex = {"$regex": q, "$options": "i"}
          filter_dict["$or"] = [{"title": regex}, {"description": regex}, {"tags": regex}]
  \<close>
\<close>

definition listings_filter :: "string option \<Rightarrow> string option \<Rightarrow> string option \<Rightarrow> mfilter" where
  "listings_filter q ty tg =
     (case given ty of None \<Rightarrow> [] | Some t \<Rightarrow> [(''type'', QCond (Eq (PStr t)))]) @
     (case given tg of None \<Rightarrow> [] | Some t \<Rightarrow> [(''tags'', QCond (In [PStr t]))]) @
     (case given q of
        None \<Rightarrow> []
      | Some x \<Rightarrow>
          [(''$or'', QOr [[(''title'', Regex x ''i'')], [(''description'', Regex x ''i'')],
                          [(''tags'', Regex x ''i'')]])])"

text \<open>
  \<^verbatim>\<open>
  def list_listings(q: Optional[str] = Query(None), type: Optional[str] = Query(None),
                    tag: Optional[str] = Query(None), limit: int = Query(50, ge=1, le=100)):
      ...
      docs = get_documents("listing", filter_dict, limit)
      return [ListingOut(**serialize_doc(d)) for d in docs]
  \<close>
\<close>

definition list_listings ::
  "string option \<Rightarrow> string option \<Rightarrow> string option \<Rightarrow> int option \<Rightarrow> store
     \<Rightarrow> (error + ListingOut list) \<times> store" where
  "list_listings q ty tg limit s =
     (case Query_limit limit of
        Inl e \<Rightarrow> (Inl e, s)
      | Inr n \<Rightarrow>
          (case get_documents ''listing'' (listings_filter q ty tg) n s of
             (Inl e, s1) \<Rightarrow> (Inl e, s1)
           | (Inr docs, s1) \<Rightarrow> (map_result (\<lambda>d. listing_response (Some d)) docs, s1)))"

text \<open>\<^verbatim>\<open>not doc\<close>: nothing was found (or the dict is empty).\<close>

fun falsy :: "doc option \<Rightarrow> bool" where
  "falsy None = True"
| "falsy (Some d) = (d = [])"

text \<open>
  \<^verbatim>\<open>
  def get_listing(listing_id: str):
      try:
          oid = ObjectId(listing_id)
      except Exception:
          raise HTTPException(status_code=400, detail="Invalid listing id")
      doc = db["listing"].find_one({"_id": oid})
      if not doc:
          raise HTTPException(status_code=404, detail="Listing not found")
      return ListingOut(**serialize_doc(doc))
  \<close>
\<close>

definition get_listing :: "string \<Rightarrow> store \<Rightarrow> (error + ListingOut) \<times> store" where
  "get_listing lid s =
     (case ObjectId_of_str lid of
        None \<Rightarrow> (Inl (HTTPException 400 ''Invalid listing id''), s)
      | Some oid \<Rightarrow>
          (case find_one ''listing'' oid s of
             (Inl e, s1) \<Rightarrow> (Inl e, s1)
           | (Inr doc, s1) \<Rightarrow>
               if falsy doc then (Inl (HTTPException 404 ''Listing not found''), s1)
               else (listing_response doc, s1)))"

text \<open>
  \<^verbatim>\<open>
  def create_order(payload: Order):
      try:
          oid = ObjectId(payload.listing_id)
      except Exception:
          raise HTTPException(status_code=400, detail="Invalid listing id")
      listing = db["listing"].find_one({"_id": oid})
      if not listing:
          raise HTTPException(status_code=404, detail="Listing not found")
      data = payload.model_dump()
      data["listing_id"] = oid
      inserted_id = create_document("order", data)
      doc = db["order"].find_one({"_id": ObjectId(inserted_id)})
      return OrderOut(**serialize_doc(doc))
  \<close>
\<close>

definition create_order :: "Order \<Rightarrow> store \<Rightarrow> (error + OrderOut) \<times> store" where
  "create_order payload s =
     (case ObjectId_of_str (Order.listing_id payload) of
        None \<Rightarrow> (Inl (HTTPException 400 ''Invalid listing id''), s)
      | Some oid \<Rightarrow>
          (case find_one ''listing'' oid s of
             (Inl e, s1) \<Rightarrow> (Inl e, s1)
           | (Inr listing, s1) \<Rightarrow>
               if falsy listing then (Inl (HTTPException 404 ''Listing not found''), s1)
               else
                 let data = AList.update ''listing_id'' (POid oid) (Order_model_dump payload)
                 in (case create_document ''order'' data s1 of
                       (Inl e, s2) \<Rightarrow> (Inl e, s2)
                     | (Inr inserted_id, s2) \<Rightarrow>
                         (case ObjectId_of_str inserted_id of
                            None \<Rightarrow> (Inl ServerError, s2)
                          | Some oid2 \<Rightarrow>
                              (case find_one ''order'' oid2 s2 of
                                 (Inl e, s3) \<Rightarrow> (Inl e, s3)
                               | (Inr doc, s3) \<Rightarrow> (order_response doc, s3))))))"

text \<open>
  \<^verbatim>\<open>
  def list_orders(buyer_email: Optional[str] = None, limit: int = Query(50, ge=1, le=100)):
      filter_dict = {}
      if buyer_email:
          filter_dict["buyer_email"] = buyer_email
      docs = get_documents("order", filter_dict, limit)
      return [OrderOut(**serialize_doc(d)) for d in docs]
  \<close>
\<close>

definition orders_filter :: "string option \<Rightarrow> mfilter" where
  "orders_filter be =
     (case given be of
        None \<Rightarrow> []
      | Some b \<Rightarrow> [(''buyer_email'', QCond (Eq (PStr b)))])"

definition list_orders ::
  "string option \<Rightarrow> int option \<Rightarrow> store \<Rightarrow> (error + OrderOut list) \<times> store" where
  "list_orders be limit s =
     (case Query_limit limit of
        Inl e \<Rightarrow> (Inl e, s)
      | Inr n \<Rightarrow>
          (case get_documents ''order'' (orders_filter be) n s of
             (Inl e, s1) \<Rightarrow> (Inl e, s1)
           | (Inr docs, s1) \<Rightarrow> (map_result (\<lambda>d. order_response (Some d)) docs, s1)))"

section \<open>Validation of a request body against the Listing schema\<close>

text \<open>
  \<^verbatim>\<open>
  class Listing(BaseModel):
      title: str = Field(...)
      type: str = Field(...)
      description: str = Field(...)
      price: float = Field(..., ge=0)
      tags: List[str] = Field(default_factory=list)
      seller_name: str = Field(...)
      seller_email: EmailStr = Field(...)
      demo_url: Optional[HttpUrl] = Field(None)
      thumbnail_url: Optional[HttpUrl] = Field(None)
  \<close>
  The body is the decoded JSON object. The validators of \<^verbatim>\<open>EmailStr\<close> and
  \<^verbatim>\<open>HttpUrl\<close> belong to the validation library and are parameters here: each
  gives the accepted (normalised) string, or \<open>None\<close> for a malformed one.
\<close>

definition get_email :: "(string \<Rightarrow> string option) \<Rightarrow> doc \<Rightarrow> string \<Rightarrow> string option" where
  "get_email email d k = (case map_of d k of Some (PStr x) \<Rightarrow> email x | _ \<Rightarrow> None)"

definition get_opt_url ::
  "(string \<Rightarrow> string option) \<Rightarrow> doc \<Rightarrow> string \<Rightarrow> HttpUrl option option" where
  "get_opt_url url d k =
     (case map_of d k of
        None \<Rightarrow> Some None
      | Some PNone \<Rightarrow> Some None
      | Some (PStr x) \<Rightarrow> (case url x of None \<Rightarrow> None | Some u \<Rightarrow> Some (Some (HttpUrl u)))
      | Some v \<Rightarrow> None)"

definition get_float_ge0 :: "doc \<Rightarrow> string \<Rightarrow> pyfloat option" where
  "get_float_ge0 d k =
     (case get_float d k of
        None \<Rightarrow> None
      | Some f \<Rightarrow> if float_ge0 f then Some f else None)"

definition Listing_validate ::
  "(string \<Rightarrow> string option) \<Rightarrow> (string \<Rightarrow> string option) \<Rightarrow> doc \<Rightarrow> error + Listing" where
  "Listing_validate email url raw =
     (if float_unmodelled raw ''price'' then Inl Unmodelled
      else
        (case do {
            t \<leftarrow> get_str raw ''title'';
            ty \<leftarrow> get_str raw ''type'';
            de \<leftarrow> get_str raw ''description'';
            pr \<leftarrow> get_float_ge0 raw ''price'';
            tg \<leftarrow> get_str_list raw ''tags'';
            sn \<leftarrow> get_str raw ''seller_name'';
            se \<leftarrow> get_email email raw ''seller_email'';
            du \<leftarrow> get_opt_url url raw ''demo_url'';
            tu \<leftarrow> get_opt_url url raw ''thumbnail_url'';
            Some \<lparr>Listing.title = t, type = ty, description = de, price = pr, tags = tg,
                  seller_name = sn, seller_email = se, demo_url = du, thumbnail_url = tu\<rparr>
          } of
           None \<Rightarrow> Inl ValidationError
         | Some payload \<Rightarrow> Inr payload))"

text \<open>
  \<^verbatim>\<open>@app.post("/api/listings")\<close>: the framework validates the body and calls the
  handler with the typed record; on a validation error the handler does not run.
\<close>

definition post_api_listings ::
  "(string \<Rightarrow> string option) \<Rightarrow> (string \<Rightarrow> string option) \<Rightarrow> doc \<Rightarrow> store
     \<Rightarrow> (error + ListingOut) \<times> store" where
  "post_api_listings email url raw s =
     (case Listing_validate email url raw of
        Inl e \<Rightarrow> (Inl e, s)
      | Inr payload \<Rightarrow> create_listing payload s)"

section \<open>Example data\<close>

text \<open>An empty, reachable store, the listing of the spec's scenario, and an order for a given listing.\<close>

definition store0 :: store where
  "store0 = \<lparr>reachable = True, collections = (\<lambda>c. []), next_oid = 0, trace = []\<rparr>"

definition listing0 :: Listing where
  "listing0 = \<lparr>Listing.title = ''Bot'', type = ''chatbot'', description = ''d'',
      price = Finite (999 / 100), tags = [], seller_name = ''A'', seller_email = ''a@x.com'',
      demo_url = None, thumbnail_url = None\<rparr>"

definition order_of :: "string \<Rightarrow> Order" where
  "order_of lid = \<lparr>Order.listing_id = lid, buyer_name = ''B'', buyer_email = ''b@x.com'',
      status = ''completed''\<rparr>"

text \<open>The store after \<open>listing0\<close> was created in \<open>store0\<close>.\<close>

definition store1 :: store where
  "store1 = snd (create_listing listing0 store0)"

section \<open>Definitions used to state the properties\<close>

text \<open>
  The response the spec asks of \<open>create_listing\<close>: the fields of the payload, with an
  identifier.
\<close>

definition Listing_with_id :: "string \<Rightarrow> Listing \<Rightarrow> ListingOut" where
  "Listing_with_id i p =
     \<lparr>ListingOut.id' = i, title = Listing.title p, type = Listing.type p,
      description = Listing.description p, price = Listing.price p, tags = Listing.tags p,
      seller_name = Listing.seller_name p, seller_email = Listing.seller_email p,
      demo_url = map_option url_str (Listing.demo_url p),
      thumbnail_url = map_option url_str (Listing.thumbnail_url p)\<rparr>"

text \<open>The store after a successful \<open>create_document c data\<close>.\<close>

definition after_insert :: "string \<Rightarrow> doc \<Rightarrow> store \<Rightarrow> store" where
  "after_insert c data s =
     s\<lparr>next_oid := next_oid s + 1, trace := trace s @ [Write c],
       collections := (collections s)
         (c := collections s c @ [AList.update ''_id'' (POid (oid_of (next_oid s))) data])\<rparr>"

text \<open>The response for \<open>listing0\<close> stored under the identifier 0.\<close>

definition out0 :: ListingOut where
  "out0 = Listing_with_id ''000000000000000000000000'' listing0"

text \<open>The store after \<open>listing0\<close> was created a second time, in \<open>store1\<close>.\<close>

definition store2 :: store where
  "store2 = snd (create_listing listing0 store1)"







text \<open>
  Stand-ins for the library's validators of email addresses and URLs, and a request
  body with a given price.
\<close>

definition email_ok :: "string \<Rightarrow> string option" where
  "email_ok x = (if CHR ''@'' \<in> set x then Some x else None)"

definition url_ok :: "string \<Rightarrow> string option" where
  "url_ok x = (if prefix ''http'' x then Some x else None)"

definition raw_listing :: "rat \<Rightarrow> doc" where
  "raw_listing r =
     [(''title'', PStr ''Bot''), (''type'', PStr ''chatbot''), (''description'', PStr ''d''),
      (''price'', PFloat (Finite r)), (''seller_name'', PStr ''A''),
      (''seller_email'', PStr ''a@x.com'')]"

text \<open>
  The spec's well-formed identifier: the string form of an identifier, 24 hexadecimal
  digits. \<open>spaced_id\<close> has 24 characters and is not one.
\<close>

definition well_formed_id :: "string \<Rightarrow> bool" where
  "well_formed_id x = (length x = 24 \<and> list_all (\<lambda>c. hex_val c \<noteq> None) x)"

definition spaced_id :: string where
  "spaced_id = ''0000 0000 0000 0000 0000''"

text \<open>The listing of the scenario with a demo URL.\<close>

definition listing_url :: Listing where
  "listing_url = listing0\<lparr>Listing.demo_url := Some (HttpUrl ''https://x.com/demo'')\<rparr>"

text \<open>A string of 24 characters with one that is neither a hexadecimal digit nor whitespace.\<close>

definition bad_id :: string where
  "bad_id = ''00000000000000000000000g''"

section \<open>Identifiers: string form and parsing\<close>

lemma hex_val_hex_char: "d < 16 \<Longrightarrow> hex_val (hex_char d) = Some d"
  by (auto simp: hex_val_def hex_char_def Let_def)

lemma hex_char_not_space: "d < 16 \<Longrightarrow> \<not> is_space (hex_char d)"
  by (auto simp: is_space_def hex_char_def Let_def)

lemma byte_of_digits: "of_nat (16 * (unat b div 16) + unat b mod 16) = (b :: byte)"
  by simp

lemma fromhex_hexlify: "fromhex (hexlify bs) = Some bs"
proof (induction bs)
  case Nil
  show ?case by simp
next
  case (Cons b bs)
  have d: "unat b div 16 < 16" using unsigned_less [of b, where 'a = nat] by simp
  have m: "unat b mod 16 < 16" by simp
  show ?case
    using Cons
    by (simp add: hex_char_not_space [OF d] hex_val_hex_char [OF d] hex_val_hex_char [OF m]
        byte_of_digits del: of_nat_add of_nat_mult)
qed

lemma length_hexlify: "length (hexlify bs) = 2 * length bs"
  by (induction bs) auto

lemma length_oid_of: "length (oid_of w) = 12"
  by (simp add: oid_of_def)

lemma length_str_ObjectId: "length (str_ObjectId (oid_of w)) = 24"
  by (simp add: str_ObjectId_def length_hexlify length_oid_of)

lemma str_ObjectId_nonempty: "str_ObjectId (oid_of w) \<noteq> []"
  using length_str_ObjectId [of w] by auto

lemma ObjectId_roundtrip: "ObjectId_of_str (str_ObjectId (oid_of w)) = Some (oid_of w)"
  using length_str_ObjectId [of w]
  by (simp add: ObjectId_of_str_def) (simp add: str_ObjectId_def fromhex_hexlify)

lemma fromhex_bad_char:
  "list_ex (\<lambda>c. hex_val c = None \<and> \<not> is_space c) x \<Longrightarrow> fromhex x = None"
proof (induction x rule: fromhex.induct)
  case 1
  then show ?case by simp
next
  case (2 c cs)
  show ?case
  proof (cases "is_space c")
    case True
    with 2 show ?thesis by simp
  next
    case False
    show ?thesis
    proof (cases "hex_val c")
      case None
      with False show ?thesis by simp
    next
      case (Some hi)
      note hi = this
      show ?thesis
      proof (cases cs)
        case Nil
        with False hi show ?thesis by simp
      next
        case (Cons d ds)
        show ?thesis
        proof (cases "hex_val d")
          case None
          with False hi Cons show ?thesis by simp
        next
          case (Some lo)
          from "2.prems" hi Cons Some have "list_ex (\<lambda>c. hex_val c = None \<and> \<not> is_space c) ds"
            by simp
          with "2.IH"(2) [OF False hi Cons Some] have "fromhex ds = None" by simp
          with False hi Cons Some show ?thesis by simp
        qed
      qed
    qed
  qed
qed

lemma ObjectId_of_str_rejects:
  "length x \<noteq> 24 \<or> list_ex (\<lambda>c. hex_val c = None \<and> \<not> is_space c) x \<Longrightarrow>
   ObjectId_of_str x = None"
  by (auto simp: ObjectId_of_str_def fromhex_bad_char)

lemma str_ObjectId_0: "str_ObjectId (oid_of 0) = ''000000000000000000000000''"
  by code_simp

lemma str_ObjectId_1: "str_ObjectId (oid_of 1) = ''000000000000000000000001''"
  by code_simp

lemma ObjectId_of_str_0: "ObjectId_of_str ''000000000000000000000000'' = Some (oid_of 0)"
  using ObjectId_roundtrip [of 0] by (simp only: str_ObjectId_0)

lemma ObjectId_of_str_1: "ObjectId_of_str ''000000000000000000000001'' = Some (oid_of 1)"
  using ObjectId_roundtrip [of 1] by (simp only: str_ObjectId_1)

lemma oid_0_1: "oid_of 0 \<noteq> oid_of 1"
  by code_simp

lemma spaced: "\<not> well_formed_id spaced_id \<and> ObjectId_of_str spaced_id \<noteq> None \<and> length spaced_id = 24"
  by code_simp

section \<open>Inserting and reading back a listing\<close>

lemma strs_of_map_PStr: "strs_of (map PStr ts) = Some ts"
  by (induction ts) auto

lemma has_id_stored: "has_id oid (AList.update ''_id'' (POid oid) data)"
  by (simp add: has_id_def update_conv')

lemma find_snoc_fresh: "\<not> list_ex P xs \<Longrightarrow> P y \<Longrightarrow> List.find P (xs @ [y]) = Some y"
  by (induction xs) auto

lemma encodable_strs: "list_all bson_encodable (map PStr ts)"
  by (induction ts) auto

lemma opt_val_encodable: "bson_encodable (opt_val u) \<longleftrightarrow> u = None"
  by (cases u rule: opt_val.cases) auto

lemma storable_listing:
  "storable (Listing_model_dump p) \<longleftrightarrow>
   Listing.demo_url p = None \<and> Listing.thumbnail_url p = None"
  by (simp add: storable_def Listing_model_dump_def encodable_strs opt_val_encodable)

lemma storable_order:
  "storable (AList.update ''listing_id'' (POid oid) (Order_model_dump p))"
  by (simp add: storable_def Order_model_dump_def)

lemma serialize_stored_listing:
  "serialize_doc (Some (AList.update ''_id'' (POid oid) (Listing_model_dump p))) =
   Inr (Some (AList.update ''id'' (PStr (str_ObjectId oid))
         (AList.delete ''_id'' (AList.update ''_id'' (POid oid) (Listing_model_dump p)))))"
  by (simp add: serialize_doc_def pop_id_def conv_listing_id_def update_conv' delete_conv'
      Listing_model_dump_def)

lemma listing_response_stored:
  assumes "Listing.demo_url p = None" and "Listing.thumbnail_url p = None"
  shows "listing_response (Some (AList.update ''_id'' (POid oid) (Listing_model_dump p))) =
   Inr (Listing_with_id (str_ObjectId oid) p)"
  unfolding listing_response_def serialize_stored_listing
  apply (simp add: ListingOut_of_def float_unmodelled_def update_conv' delete_conv' get_str_def
      get_float_def get_str_list_def)
  apply (simp add: Listing_model_dump_def strs_of_map_PStr get_opt_str_def assms update_conv'
      delete_conv' Listing_with_id_def)
  done

lemma create_document_ok:
  "reachable s \<Longrightarrow> storable data \<Longrightarrow>
   \<not> list_ex (has_id (oid_of (next_oid s))) (collections s c) \<Longrightarrow>
   create_document c data s = (Inr (str_ObjectId (oid_of (next_oid s))), after_insert c data s)"
  by (simp add: create_document_def after_insert_def Let_def)

lemma create_document_Inr:
  "create_document c data s = (Inr i, s1) \<Longrightarrow>
   reachable s \<and> storable data \<and> \<not> list_ex (has_id (oid_of (next_oid s))) (collections s c)"
  by (auto simp: create_document_def Let_def split: if_splits)

lemma find_one_after_insert:
  "reachable s \<Longrightarrow> \<not> list_ex (has_id (oid_of (next_oid s))) (collections s c) \<Longrightarrow>
   find_one c (oid_of (next_oid s)) (after_insert c data s) =
     (Inr (Some (AList.update ''_id'' (POid (oid_of (next_oid s))) data)),
      (after_insert c data s)\<lparr>trace := trace s @ [Write c, Read c]\<rparr>)"
  by (simp add: find_one_def after_insert_def find_snoc_fresh has_id_stored)

lemma create_listing_ok:
  assumes "reachable s"
    and "\<not> list_ex (has_id (oid_of (next_oid s))) (collections s ''listing'')"
    and "Listing.demo_url payload = None" and "Listing.thumbnail_url payload = None"
  shows "create_listing payload s =
     (Inr (Listing_with_id (str_ObjectId (oid_of (next_oid s))) payload),
      (after_insert ''listing'' (Listing_model_dump payload) s)
        \<lparr>trace := trace s @ [Write ''listing'', Read ''listing'']\<rparr>)"
  using assms
  by (simp add: create_listing_def create_document_ok storable_listing ObjectId_roundtrip
      find_one_after_insert listing_response_stored)

lemma create_listing_Inr:
  assumes "create_listing payload s = (Inr out, s1)"
  shows "reachable s \<and> \<not> list_ex (has_id (oid_of (next_oid s))) (collections s ''listing'') \<and>
     Listing.demo_url payload = None \<and> Listing.thumbnail_url payload = None"
proof -
  obtain i s' where "create_document ''listing'' (Listing_model_dump payload) s = (Inr i, s')"
    using assms by (auto simp: create_listing_def split: prod.splits sum.splits)
  from create_document_Inr [OF this] show ?thesis by (simp add: storable_listing)
qed

lemma create_listing_url:
  assumes "reachable s"
    and "Listing.demo_url payload \<noteq> None \<or> Listing.thumbnail_url payload \<noteq> None"
  shows "create_listing payload s = (Inl ServerError, s)"
  using assms by (auto simp: create_listing_def create_document_def storable_listing)

lemma store0_fresh:
  "reachable store0 \<and>
   \<not> list_ex (has_id (oid_of (next_oid store0))) (collections store0 ''listing'')"
  by (simp add: store0_def)

lemma listing0_no_urls:
  "Listing.demo_url listing0 = None \<and> Listing.thumbnail_url listing0 = None"
  by (simp add: listing0_def)

lemma create_listing0_full:
  "create_listing listing0 store0 =
     (Inr out0, (after_insert ''listing'' (Listing_model_dump listing0) store0)
        \<lparr>trace := trace store0 @ [Write ''listing'', Read ''listing'']\<rparr>)"
proof -
  have n: "next_oid store0 = 0" by (simp add: store0_def)
  show ?thesis
    using create_listing_ok [of store0 listing0] store0_fresh listing0_no_urls
    by (simp add: n out0_def str_ObjectId_0)
qed

lemma store1_eq:
  "store1 = store0\<lparr>next_oid := 1, trace := [Write ''listing'', Read ''listing''],
     collections := (collections store0)
       (''listing'' := [AList.update ''_id'' (POid (oid_of 0)) (Listing_model_dump listing0)])\<rparr>"
  unfolding store1_def create_listing0_full by (simp add: after_insert_def store0_def)

lemma create_listing0: "create_listing listing0 store0 = (Inr out0, store1)"
  by (simp add: store1_def create_listing0_full)

lemma store1_listings:
  "collections store1 ''listing'' =
     [AList.update ''_id'' (POid (oid_of 0)) (Listing_model_dump listing0)]"
  by (simp add: store1_eq store0_def)

lemma store1_reachable: "reachable store1"
  by (simp add: store1_eq store0_def)

lemma store1_next: "next_oid store1 = 1"
  by (simp add: store1_eq store0_def)

lemma store1_no_1: "\<not> list_ex (has_id (oid_of 1)) (collections store1 ''listing'')"
  using oid_0_1 by (auto simp: store1_listings has_id_def update_conv')

lemma store1_fresh:
  "\<not> list_ex (has_id (oid_of (next_oid store1))) (collections store1 ''listing'')"
  by (simp only: store1_next store1_no_1 not_False_eq_True)

lemma store2_eq:
  "store2 = (after_insert ''listing'' (Listing_model_dump listing0) store1)
        \<lparr>trace := trace store1 @ [Write ''listing'', Read ''listing'']\<rparr>"
  using create_listing_ok [OF store1_reachable store1_fresh, of listing0] listing0_no_urls
  by (simp add: store2_def)

lemma store2_listings:
  "collections store2 ''listing'' =
     [AList.update ''_id'' (POid (oid_of 0)) (Listing_model_dump listing0),
      AList.update ''_id'' (POid (oid_of 1)) (Listing_model_dump listing0)]"
  by (simp add: store2_eq after_insert_def store1_next store1_listings)

lemma store2_reachable: "reachable store2"
  using store1_reachable by (simp add: store2_eq after_insert_def)

lemma listing_response_0:
  "listing_response (Some (AList.update ''_id'' (POid (oid_of 0)) (Listing_model_dump listing0)))
     = Inr out0"
  using listing0_no_urls by (simp add: listing_response_stored str_ObjectId_0 out0_def)

lemma list_listings_store2:
  "list_listings None None None (Some 1) store2 =
     (Inr [out0], store2\<lparr>trace := trace store2 @ [Read ''listing'']\<rparr>)"
  using store2_reachable
  by (simp add: list_listings_def Query_limit_def listings_filter_def get_documents_def
      filter_modelled_def doc_matches_def store2_listings listing_response_0)

section \<open>create\_order: error paths\<close>

text \<open>
  Claim C3, amended. For every Order payload whose \<open>listing_id\<close> string the identifier
  constructor rejects, \<open>create_order\<close> fails with InvalidArgument (status 400) before any
  store access: the store after the call is the store before it, trace of reads and
  writes included, whether or not the store is reachable. The constructor rejects every
  string whose length is not 24 and every string with a character that is neither a
  hexadecimal digit nor ASCII whitespace.
\<close>

theorem create_order_rejected_id:
  "(ObjectId_of_str (Order.listing_id payload) = None \<longrightarrow>
      create_order payload s = (Inl (HTTPException 400 ''Invalid listing id''), s)) \<and>
   (length (Order.listing_id payload) \<noteq> 24 \<or>
    list_ex (\<lambda>c. hex_val c = None \<and> \<not> is_space c) (Order.listing_id payload) \<longrightarrow>
      create_order payload s = (Inl (HTTPException 400 ''Invalid listing id''), s))"
proof (intro conjI impI)
  assume "ObjectId_of_str (Order.listing_id payload) = None"
  then show "create_order payload s = (Inl (HTTPException 400 ''Invalid listing id''), s)"
    by (simp add: create_order_def)
next
  assume "length (Order.listing_id payload) \<noteq> 24 \<or>
    list_ex (\<lambda>c. hex_val c = None \<and> \<not> is_space c) (Order.listing_id payload)"
  then have "ObjectId_of_str (Order.listing_id payload) = None"
    by (rule ObjectId_of_str_rejects)
  then show "create_order payload s = (Inl (HTTPException 400 ''Invalid listing id''), s)"
    by (simp add: create_order_def)
qed

theorem create_order_rejected_id_witness:
  "ObjectId_of_str (Order.listing_id (order_of ''not-an-id'')) = None \<and>
   length (Order.listing_id (order_of ''not-an-id'')) \<noteq> 24 \<and>
   create_order (order_of ''not-an-id'') store1
     = (Inl (HTTPException 400 ''Invalid listing id''), store1) \<and>
   length bad_id = 24 \<and>
   list_ex (\<lambda>c. hex_val c = None \<and> \<not> is_space c) (Order.listing_id (order_of bad_id)) \<and>
   create_order (order_of bad_id) store1
     = (Inl (HTTPException 400 ''Invalid listing id''), store1)"
proof -
  have h: "ObjectId_of_str (Order.listing_id (order_of ''not-an-id'')) = None"
    by (simp add: order_of_def ObjectId_of_str_def)
  have l: "length (Order.listing_id (order_of ''not-an-id'')) \<noteq> 24"
    by (simp add: order_of_def)
  have l2: "length bad_id = 24" by (simp add: bad_id_def)
  have b: "list_ex (\<lambda>c. hex_val c = None \<and> \<not> is_space c) (Order.listing_id (order_of bad_id))"
    by code_simp
  note t1 = create_order_rejected_id [where payload = "order_of ''not-an-id''" and s = store1,
      THEN conjunct1, THEN mp, OF h]
  note t2 = create_order_rejected_id [where payload = "order_of bad_id" and s = store1,
      THEN conjunct2, THEN mp, OF disjI2, OF b]
  from h l t1 l2 b t2 show ?thesis by (intro conjI)
qed

text \<open>
  Claim C3 as stated fails: \<open>spaced_id\<close> is not a well-formed identifier (it has spaces),
  the constructor accepts it, and \<open>create_order\<close> reads the listing collection and fails
  with NotFound.
\<close>

theorem create_order_spaced_id_counterexample:
  "\<not> well_formed_id spaced_id \<and>
   fst (create_order (order_of spaced_id) store1)
     = Inl (HTTPException 404 ''Listing not found'') \<and>
   trace (snd (create_order (order_of spaced_id) store1)) = trace store1 @ [Read ''listing'']"
  by code_simp

text \<open>
  Claim C2. For every Order payload whose \<open>listing_id\<close> is a well-formed identifier that
  no stored Listing has, \<open>create_order\<close> on a reachable store fails with NotFound
  (status 404) and writes nothing: the store after the call differs from the store
  before it only by the one read of the listing collection in its trace, so every
  collection (the orders among them) and the identifier generator are unchanged. On an
  unreachable store the call fails with StorageError and leaves the store as it is.
\<close>

theorem create_order_unknown_listing:
  assumes "ObjectId_of_str (Order.listing_id payload) = Some oid"
    and "\<not> list_ex (has_id oid) (collections s ''listing'')"
  shows "(reachable s \<longrightarrow>
            create_order payload s =
              (Inl (HTTPException 404 ''Listing not found''),
               s\<lparr>trace := trace s @ [Read ''listing'']\<rparr>)) \<and>
         (\<not> reachable s \<longrightarrow> create_order payload s = (Inl StorageError, s)) \<and>
         collections (snd (create_order payload s)) = collections s \<and>
         next_oid (snd (create_order payload s)) = next_oid s"
proof -
  from assms(2) have n: "List.find (has_id oid) (collections s ''listing'') = None"
    by (simp add: find_None_iff list_ex_iff)
  have r: "reachable s \<Longrightarrow> create_order payload s =
      (Inl (HTTPException 404 ''Listing not found''), s\<lparr>trace := trace s @ [Read ''listing'']\<rparr>)"
    using assms(1) n by (simp add: create_order_def find_one_def)
  have u: "\<not> reachable s \<Longrightarrow> create_order payload s = (Inl StorageError, s)"
    using assms(1) by (simp add: create_order_def find_one_def)
  have c: "collections (snd (create_order payload s)) = collections s"
    by (cases "reachable s") (simp_all add: r u)
  have g: "next_oid (snd (create_order payload s)) = next_oid s"
    by (cases "reachable s") (simp_all add: r u)
  from r u c g show ?thesis by (intro conjI impI)
qed

theorem create_order_unknown_listing_witness:
  "ObjectId_of_str (Order.listing_id (order_of ''000000000000000000000001''))
     = Some (oid_of 1) \<and>
   reachable store1 \<and>
   \<not> list_ex (has_id (oid_of 1)) (collections store1 ''listing'') \<and>
   create_order (order_of ''000000000000000000000001'') store1
     = (Inl (HTTPException 404 ''Listing not found''),
        store1\<lparr>trace := trace store1 @ [Read ''listing'']\<rparr>) \<and>
   collections (snd (create_order (order_of ''000000000000000000000001'') store1))
     = collections store1"
proof -
  have h1: "ObjectId_of_str (Order.listing_id (order_of ''000000000000000000000001''))
      = Some (oid_of 1)"
    by (simp add: order_of_def ObjectId_of_str_1)
  note h2 = store1_reachable
  note h3 = store1_no_1
  note t = create_order_unknown_listing [OF h1 h3]
  from h1 h2 h3 t [THEN conjunct1, THEN mp, OF h2] t [THEN conjunct2, THEN conjunct2, THEN conjunct1]
  show ?thesis by (intro conjI)
qed

section \<open>create\_listing and get\_listing\<close>

text \<open>
  Claim C1. The claim asks that \<open>create_listing\<close> return, for every valid payload, a record
  with a non-empty id and the payload's fields. For a payload with a URL it does not:
  the dict handed to the store carries the URL object, the insert raises, and the request
  ends in an unhandled exception with nothing stored. Here for \<open>listing_url\<close>, the
  scenario's listing with a demo URL, on the empty reachable store.
\<close>

theorem create_listing_url_fails:
  "Listing.demo_url listing_url = Some (HttpUrl ''https://x.com/demo'') \<and>
   reachable store0 \<and>
   create_listing listing_url store0 = (Inl ServerError, store0)"
proof -
  have u: "Listing.demo_url listing_url = Some (HttpUrl ''https://x.com/demo'')"
    by (simp add: listing_url_def)
  have r: "reachable store0" by (simp add: store0_def)
  have "create_listing listing_url store0 = (Inl ServerError, store0)"
    by (rule create_listing_url [OF r]) (simp add: u)
  with u r show ?thesis by (intro conjI)
qed

text \<open>
  Claim C7, amended. \<open>get_listing\<close> fails with InvalidArgument (status 400) and leaves the
  store untouched when the identifier constructor rejects the id (reachable store or
  not); it rejects every string whose length is not 24 and every string with a character
  that is neither a hexadecimal digit nor ASCII whitespace. On a reachable store
  \<open>get_listing\<close> fails with NotFound (status 404) when no stored record has the accepted
  id, and otherwise returns the serialization of the record found, after one read; and
  on the id of a listing that \<open>create_listing\<close> has just returned, it returns that same
  listing.
\<close>

theorem get_listing_outcomes:
  "(ObjectId_of_str lid = None \<longrightarrow>
      get_listing lid s = (Inl (HTTPException 400 ''Invalid listing id''), s)) \<and>
   (length lid \<noteq> 24 \<or> list_ex (\<lambda>c. hex_val c = None \<and> \<not> is_space c) lid \<longrightarrow>
      get_listing lid s = (Inl (HTTPException 400 ''Invalid listing id''), s)) \<and>
   (ObjectId_of_str lid = Some oid \<and> reachable s \<and>
    \<not> list_ex (has_id oid) (collections s ''listing'') \<longrightarrow>
      get_listing lid s =
        (Inl (HTTPException 404 ''Listing not found''), s\<lparr>trace := trace s @ [Read ''listing'']\<rparr>)) \<and>
   (ObjectId_of_str lid = Some oid \<and> reachable s \<and>
    List.find (has_id oid) (collections s ''listing'') = Some d \<longrightarrow>
      get_listing lid s =
        (listing_response (Some d), s\<lparr>trace := trace s @ [Read ''listing'']\<rparr>)) \<and>
   (create_listing payload s = (Inr out, s') \<longrightarrow>
      get_listing (ListingOut.id' out) s' =
        (Inr out, s'\<lparr>trace := trace s' @ [Read ''listing'']\<rparr>))"
proof (intro conjI impI)
  assume "ObjectId_of_str lid = None"
  then show "get_listing lid s = (Inl (HTTPException 400 ''Invalid listing id''), s)"
    by (simp add: get_listing_def)
next
  assume "length lid \<noteq> 24 \<or> list_ex (\<lambda>c. hex_val c = None \<and> \<not> is_space c) lid"
  then have "ObjectId_of_str lid = None" by (rule ObjectId_of_str_rejects)
  then show "get_listing lid s = (Inl (HTTPException 400 ''Invalid listing id''), s)"
    by (simp add: get_listing_def)
next
  assume a: "ObjectId_of_str lid = Some oid \<and> reachable s \<and>
    \<not> list_ex (has_id oid) (collections s ''listing'')"
  then have "List.find (has_id oid) (collections s ''listing'') = None"
    by (simp add: find_None_iff list_ex_iff)
  with a show "get_listing lid s =
        (Inl (HTTPException 404 ''Listing not found''), s\<lparr>trace := trace s @ [Read ''listing'']\<rparr>)"
    by (simp add: get_listing_def find_one_def)
next
  assume a: "ObjectId_of_str lid = Some oid \<and> reachable s \<and>
    List.find (has_id oid) (collections s ''listing'') = Some d"
  then have "has_id oid d" by (auto simp: find_Some_iff)
  then have "d \<noteq> []" by (auto simp: has_id_def)
  with a show "get_listing lid s =
        (listing_response (Some d), s\<lparr>trace := trace s @ [Read ''listing'']\<rparr>)"
    by (simp add: get_listing_def find_one_def)
next
  assume c: "create_listing payload s = (Inr out, s')"
  from create_listing_Inr [OF c]
  have r: "reachable s"
    and f: "\<not> list_ex (has_id (oid_of (next_oid s))) (collections s ''listing'')"
    and u1: "Listing.demo_url payload = None" and u2: "Listing.thumbnail_url payload = None"
    by simp_all
  let ?new = "AList.update ''_id'' (POid (oid_of (next_oid s))) (Listing_model_dump payload)"
  from c create_listing_ok [OF r f u1 u2]
  have out: "out = Listing_with_id (str_ObjectId (oid_of (next_oid s))) payload"
    and s1: "s' = (after_insert ''listing'' (Listing_model_dump payload) s)
        \<lparr>trace := trace s @ [Write ''listing'', Read ''listing'']\<rparr>"
    by simp_all
  have i: "ObjectId_of_str (ListingOut.id' out) = Some (oid_of (next_oid s))"
    by (simp add: out Listing_with_id_def ObjectId_roundtrip)
  have r1: "reachable s'" using r by (simp add: s1 after_insert_def)
  have fnd: "List.find (has_id (oid_of (next_oid s))) (collections s' ''listing'') = Some ?new"
    using f by (simp add: s1 after_insert_def find_snoc_fresh has_id_stored)
  have ne: "?new \<noteq> []" by simp
  show "get_listing (ListingOut.id' out) s' =
        (Inr out, s'\<lparr>trace := trace s' @ [Read ''listing'']\<rparr>)"
    using i r1 fnd ne
    by (simp add: get_listing_def find_one_def listing_response_stored [OF u1 u2] out)
qed

theorem get_listing_outcomes_witness:
  "ObjectId_of_str ''not-an-id'' = None \<and>
   get_listing ''not-an-id'' store1 = (Inl (HTTPException 400 ''Invalid listing id''), store1) \<and>
   list_ex (\<lambda>c. hex_val c = None \<and> \<not> is_space c) bad_id \<and>
   get_listing bad_id store1 = (Inl (HTTPException 400 ''Invalid listing id''), store1) \<and>
   ObjectId_of_str ''000000000000000000000001'' = Some (oid_of 1) \<and> reachable store1 \<and>
   \<not> list_ex (has_id (oid_of 1)) (collections store1 ''listing'') \<and>
   fst (get_listing ''000000000000000000000001'' store1)
     = Inl (HTTPException 404 ''Listing not found'') \<and>
   ObjectId_of_str ''000000000000000000000000'' = Some (oid_of 0) \<and>
   List.find (has_id (oid_of 0)) (collections store1 ''listing'')
     = Some (AList.update ''_id'' (POid (oid_of 0)) (Listing_model_dump listing0)) \<and>
   fst (get_listing ''000000000000000000000000'' store1) = Inr out0 \<and>
   create_listing listing0 store0 = (Inr out0, store1) \<and>
   fst (get_listing (ListingOut.id' out0) store1) = Inr out0"
proof -
  let ?d = "AList.update ''_id'' (POid (oid_of 0)) (Listing_model_dump listing0)"
  have a: "ObjectId_of_str ''not-an-id'' = None" by (simp add: ObjectId_of_str_def)
  have a2: "list_ex (\<lambda>c. hex_val c = None \<and> \<not> is_space c) bad_id" by code_simp
  note b = store1_no_1
  have c: "List.find (has_id (oid_of 0)) (collections store1 ''listing'') = Some ?d"
    by (simp add: store1_listings has_id_def update_conv')
  note r = listing_response_0
  note t1 = get_listing_outcomes [where lid = "''not-an-id''" and s = store1]
  note t1b = get_listing_outcomes [where lid = bad_id and s = store1]
  note t2 = get_listing_outcomes [where lid = "''000000000000000000000001''" and s = store1
      and oid = "oid_of 1"]
  note t3 = get_listing_outcomes [where lid = "''000000000000000000000000''" and s = store1
      and oid = "oid_of 0" and d = ?d]
  note t4 = get_listing_outcomes [where payload = listing0 and s = store0 and out = out0
      and s' = store1]
  have w1: "get_listing ''not-an-id'' store1
      = (Inl (HTTPException 400 ''Invalid listing id''), store1)"
    by (rule t1 [THEN conjunct1, THEN mp, OF a])
  have w1b: "get_listing bad_id store1
      = (Inl (HTTPException 400 ''Invalid listing id''), store1)"
    by (rule t1b [THEN conjunct2, THEN conjunct1, THEN mp, OF disjI2, OF a2])
  have w2: "fst (get_listing ''000000000000000000000001'' store1)
      = Inl (HTTPException 404 ''Listing not found'')"
    using t2 [THEN conjunct2, THEN conjunct2, THEN conjunct1, THEN mp,
        OF conjI [OF ObjectId_of_str_1 conjI [OF store1_reachable b]]]
    by simp
  have w3: "fst (get_listing ''000000000000000000000000'' store1) = Inr out0"
    using t3 [THEN conjunct2, THEN conjunct2, THEN conjunct2, THEN conjunct1, THEN mp,
        OF conjI [OF ObjectId_of_str_0 conjI [OF store1_reachable c]]]
    by (simp add: r)
  have w4: "fst (get_listing (ListingOut.id' out0) store1) = Inr out0"
    using t4 [THEN conjunct2, THEN conjunct2, THEN conjunct2, THEN conjunct2, THEN mp,
        OF create_listing0]
    by simp
  show ?thesis
    using a w1 a2 w1b ObjectId_of_str_1 store1_reachable b w2 ObjectId_of_str_0 c w3
      create_listing0 w4
    by (intro conjI)
qed

text \<open>
  Claim C7 as stated fails: \<open>spaced_id\<close> is not a well-formed identifier, and
  \<open>get_listing\<close> reads the listing collection and fails with NotFound.
\<close>

theorem get_listing_spaced_id_counterexample:
  "\<not> well_formed_id spaced_id \<and>
   fst (get_listing spaced_id store1) = Inl (HTTPException 404 ''Listing not found'') \<and>
   trace (snd (get_listing spaced_id store1)) = trace store1 @ [Read ''listing'']"
  by code_simp

section \<open>list\_listings and list\_orders\<close>

lemma listings_filter_empty:
  "listings_filter (Some []) ty tg = listings_filter None ty tg"
  "listings_filter q (Some []) tg = listings_filter q None tg"
  "listings_filter q ty (Some []) = listings_filter q ty None"
  by (simp_all add: listings_filter_def)

lemma orders_filter_empty: "orders_filter (Some []) = orders_filter None"
  by (simp add: orders_filter_def)

text \<open>
  Claim C10. In \<open>list_listings\<close> and \<open>list_orders\<close> a query parameter given as the
  empty string (\<open>q\<close>, \<open>type\<close>, \<open>tag\<close>, \<open>buyer_email\<close>) is treated as an absent one: the
  filter built has no clause for it, and the call gives the result and the store of the
  call without the parameter.
\<close>

theorem empty_param_is_absent:
  "listings_filter (Some []) ty tg = listings_filter None ty tg \<and>
   listings_filter q (Some []) tg = listings_filter q None tg \<and>
   listings_filter q ty (Some []) = listings_filter q ty None \<and>
   orders_filter (Some []) = orders_filter None \<and>
   list_listings (Some []) ty tg limit s = list_listings None ty tg limit s \<and>
   list_listings q (Some []) tg limit s = list_listings q None tg limit s \<and>
   list_listings q ty (Some []) limit s = list_listings q ty None limit s \<and>
   list_orders (Some []) limit s = list_orders None limit s"
  unfolding list_listings_def list_orders_def listings_filter_empty orders_filter_empty
  by simp

theorem empty_param_is_absent_witness:
  "list_listings (Some []) (Some []) (Some []) (Some 1) store2 =
     (Inr [out0], store2\<lparr>trace := trace store2 @ [Read ''listing'']\<rparr>)"
proof -
  note e = empty_param_is_absent [where limit = "Some 1" and s = store2,
      THEN conjunct2, THEN conjunct2, THEN conjunct2, THEN conjunct2]
  have a: "list_listings (Some []) (Some []) (Some []) (Some 1) store2 =
        list_listings None (Some []) (Some []) (Some 1) store2"
    by (rule e [THEN conjunct1])
  have b: "list_listings None (Some []) (Some []) (Some 1) store2 =
        list_listings None None (Some []) (Some 1) store2"
    by (rule e [THEN conjunct2, THEN conjunct1])
  have c: "list_listings None None (Some []) (Some 1) store2 =
        list_listings None None None (Some 1) store2"
    by (rule e [THEN conjunct2, THEN conjunct2, THEN conjunct1])
  show ?thesis
    unfolding a b c by (rule list_listings_store2)
qed

lemma map_result_length: "map_result f xs = Inr ys \<Longrightarrow> length ys = length xs"
  by (induction xs arbitrary: ys) (auto split: sum.splits)

lemma get_documents_length:
  "get_documents c flt n s = (Inr docs, s') \<Longrightarrow> int (length docs) \<le> max 0 n"
  by (auto simp: get_documents_def split: if_splits)

lemma Query_limit_range: "Query_limit l = Inr n \<Longrightarrow> 1 \<le> n \<and> n \<le> 100"
  by (auto simp: Query_limit_def split: option.splits if_splits)

lemma list_listings_length:
  "list_listings q ty tg l s = (Inr outs, s') \<Longrightarrow>
   \<exists>n. Query_limit l = Inr n \<and> int (length outs) \<le> n"
  by (auto simp: list_listings_def split: sum.splits prod.splits
      dest!: map_result_length get_documents_length Query_limit_range)

lemma list_orders_length:
  "list_orders be l s = (Inr outs, s') \<Longrightarrow>
   \<exists>n. Query_limit l = Inr n \<and> int (length outs) \<le> n"
  by (auto simp: list_orders_def split: sum.splits prod.splits
      dest!: map_result_length get_documents_length Query_limit_range)

text \<open>
  Claim C6. \<open>list_listings\<close> and \<open>list_orders\<close> return at most \<open>limit\<close> records, take
  the limit 50 when none is given, and reject a given limit outside 1..100 with a
  validation error without querying the store (the store, its trace included, is
  unchanged).
\<close>

theorem limit_bounds_results:
  "(list_listings q ty tg (Some n) s = (Inr louts, ls') \<longrightarrow> int (length louts) \<le> n) \<and>
   (list_orders be (Some n) s = (Inr oouts, os') \<longrightarrow> int (length oouts) \<le> n) \<and>
   (list_listings q ty tg None s = (Inr louts, ls') \<longrightarrow> length louts \<le> 50) \<and>
   (list_orders be None s = (Inr oouts, os') \<longrightarrow> length oouts \<le> 50) \<and>
   list_listings q ty tg None s = list_listings q ty tg (Some 50) s \<and>
   list_orders be None s = list_orders be (Some 50) s \<and>
   (n < 1 \<or> 100 < n \<longrightarrow>
      list_listings q ty tg (Some n) s = (Inl ValidationError, s) \<and>
      list_orders be (Some n) s = (Inl ValidationError, s))"
proof (intro conjI impI)
  assume "list_listings q ty tg (Some n) s = (Inr louts, ls')"
  from list_listings_length [OF this] show "int (length louts) \<le> n"
    by (auto simp: Query_limit_def split: if_splits)
next
  assume "list_orders be (Some n) s = (Inr oouts, os')"
  from list_orders_length [OF this] show "int (length oouts) \<le> n"
    by (auto simp: Query_limit_def split: if_splits)
next
  assume "list_listings q ty tg None s = (Inr louts, ls')"
  from list_listings_length [OF this] show "length louts \<le> 50"
    by (auto simp: Query_limit_def)
next
  assume "list_orders be None s = (Inr oouts, os')"
  from list_orders_length [OF this] show "length oouts \<le> 50"
    by (auto simp: Query_limit_def)
next
  show "list_listings q ty tg None s = list_listings q ty tg (Some 50) s"
    by (simp add: list_listings_def Query_limit_def)
  show "list_orders be None s = list_orders be (Some 50) s"
    by (simp add: list_orders_def Query_limit_def)
next
  assume "n < 1 \<or> 100 < n"
  then show "list_listings q ty tg (Some n) s = (Inl ValidationError, s)"
    by (auto simp: list_listings_def Query_limit_def)
next
  assume "n < 1 \<or> 100 < n"
  then show "list_orders be (Some n) s = (Inl ValidationError, s)"
    by (auto simp: list_orders_def Query_limit_def)
qed

theorem limit_bounds_results_witness:
  "length (collections store2 ''listing'') = 2 \<and>
   list_listings None None None (Some 1) store2 =
     (Inr [out0], store2\<lparr>trace := trace store2 @ [Read ''listing'']\<rparr>) \<and>
   int (length [out0]) \<le> 1 \<and>
   list_listings None None None (Some 0) store2 = (Inl ValidationError, store2) \<and>
   list_orders None (Some 0) store2 = (Inl ValidationError, store2) \<and>
   list_listings None None None (Some 101) store2 = (Inl ValidationError, store2) \<and>
   list_orders None (Some 101) store2 = (Inl ValidationError, store2)"
proof -
  let ?s' = "store2\<lparr>trace := trace store2 @ [Read ''listing'']\<rparr>"
  note t = limit_bounds_results [where q = None and ty = None and tg = None and be = None
      and s = store2 and louts = "[out0]" and ls' = ?s' and oouts = "[]" and os' = store2]
  have a: "int (length [out0]) \<le> 1"
    by (rule t [where n = 1, THEN conjunct1, THEN mp]) (rule list_listings_store2)
  have h0: "(0::int) < 1 \<or> 100 < (0::int)" by simp
  have h1: "(101::int) < 1 \<or> 100 < (101::int)" by simp
  have d: "length (collections store2 ''listing'') = 2" by (simp add: store2_listings)
  note r0 = t [where n = 0, THEN conjunct2, THEN conjunct2, THEN conjunct2, THEN conjunct2,
      THEN conjunct2, THEN conjunct2, THEN mp, OF h0]
  note r1 = t [where n = 101, THEN conjunct2, THEN conjunct2, THEN conjunct2, THEN conjunct2,
      THEN conjunct2, THEN conjunct2, THEN mp, OF h1]
  show ?thesis
    using d list_listings_store2 a r0 [THEN conjunct1] r0 [THEN conjunct2]
      r1 [THEN conjunct1] r1 [THEN conjunct2]
    by (intro conjI)
qed

section \<open>Serialization\<close>






section \<open>Filters of list\_listings\<close>

















lemma str_matches_title:
  "cond_match (Regex p opts) (Some (PStr t)) = regex_search p opts t"
  by simp


text \<open>
  A query with no metacharacter other than \<open>.\<close> is within the modelled fragment: on a
  reachable store \<open>get_documents\<close> answers it with records.
\<close>

lemma listings_filter_modelled:
  assumes "list_all (\<lambda>c. c \<notin> set metachars) x"
  shows "filter_modelled (listings_filter (Some x) ty tg)"
proof -
  have "regex_compile x \<noteq> None"
    using assms by (simp add: regex_compile_def list_ex_iff list_all_iff)
  then have "regex_modelled x ''i''" by (simp add: regex_modelled_def)
  then show ?thesis
    by (simp add: filter_modelled_def listings_filter_def split: option.splits)
qed





section \<open>Validation and the price invariant\<close>

lemma Listing_validate_Inr:
  "Listing_validate email url raw = Inr payload \<Longrightarrow>
   get_float_ge0 raw ''price'' = Some (Listing.price payload)"
  by (auto simp: Listing_validate_def bind_eq_Some_conv split: if_splits option.splits)

lemma get_float_ge0_Some: "get_float_ge0 d k = Some f \<Longrightarrow> float_ge0 f"
  by (auto simp: get_float_ge0_def split: option.splits if_splits)

lemma Listing_validate_negative:
  assumes "map_of raw ''price'' = Some (PFloat f)" and "\<not> float_ge0 f"
  shows "Listing_validate email url raw = Inl ValidationError"
proof -
  have u: "\<not> float_unmodelled raw ''price''" using assms(1) by (simp add: float_unmodelled_def)
  have n: "get_float_ge0 raw ''price'' = None"
    using assms by (simp add: get_float_ge0_def get_float_def)
  show ?thesis
    using u n by (simp add: Listing_validate_def split: Option.bind_split)
qed

lemma create_listing_collections:
  "create_listing p s = (res, s') \<Longrightarrow>
   collections s' ''listing'' = collections s ''listing'' \<or>
   collections s' ''listing'' =
     collections s ''listing'' @ [AList.update ''_id'' (POid (oid_of (next_oid s))) (Listing_model_dump p)]"
  by (auto simp: create_listing_def create_document_def find_one_def Let_def
      split: if_splits option.splits)

lemma stored_price:
  "map_of (AList.update ''_id'' (POid oid) (Listing_model_dump p)) ''price''
     = Some (PFloat (Listing.price p))"
  by (simp add: update_conv' Listing_model_dump_def)

text \<open>
  Claim C9. A Listing accepted by validation has a price that is at least 0; a body whose
  price is a number that is not (a negative number in particular) fails with
  ValidationError and the handler does not run, so the store is unchanged; and every
  document that a request adds to the listing collection has a price that is at least 0.
\<close>

theorem listing_price_nonnegative:
  "(Listing_validate email url raw = Inr payload \<longrightarrow> float_ge0 (Listing.price payload)) \<and>
   (map_of raw ''price'' = Some (PFloat f) \<and> \<not> float_ge0 f \<longrightarrow>
      Listing_validate email url raw = Inl ValidationError \<and>
      post_api_listings email url raw s = (Inl ValidationError, s)) \<and>
   (map_of raw ''price'' = Some (PFloat (Finite r)) \<and> r < 0 \<longrightarrow>
      Listing_validate email url raw = Inl ValidationError) \<and>
   (post_api_listings email url raw s = (res, s') \<and>
    d \<in> set (collections s' ''listing'') \<and> d \<notin> set (collections s ''listing'') \<longrightarrow>
      (\<exists>p. map_of d ''price'' = Some (PFloat p) \<and> float_ge0 p))"
proof (intro conjI impI)
  assume "Listing_validate email url raw = Inr payload"
  then show "float_ge0 (Listing.price payload)"
    by (rule Listing_validate_Inr [THEN get_float_ge0_Some])
next
  assume a: "map_of raw ''price'' = Some (PFloat f) \<and> \<not> float_ge0 f"
  then show v: "Listing_validate email url raw = Inl ValidationError"
    by (simp add: Listing_validate_negative)
  then show "post_api_listings email url raw s = (Inl ValidationError, s)"
    by (simp add: post_api_listings_def)
next
  assume "map_of raw ''price'' = Some (PFloat (Finite r)) \<and> r < 0"
  then show "Listing_validate email url raw = Inl ValidationError"
    by (intro Listing_validate_negative [of raw "Finite r"]) simp_all
next
  assume a: "post_api_listings email url raw s = (res, s') \<and>
    d \<in> set (collections s' ''listing'') \<and> d \<notin> set (collections s ''listing'')"
  show "\<exists>p. map_of d ''price'' = Some (PFloat p) \<and> float_ge0 p"
  proof (cases "Listing_validate email url raw")
    case (Inl e)
    with a show ?thesis by (auto simp: post_api_listings_def)
  next
    case (Inr payload)
    with a have c: "create_listing payload s = (res, s')" by (simp add: post_api_listings_def)
    from create_listing_collections [OF c] a
    have "d = AList.update ''_id'' (POid (oid_of (next_oid s))) (Listing_model_dump payload)"
      by auto
    then have "map_of d ''price'' = Some (PFloat (Listing.price payload))"
      by (simp only: stored_price)
    moreover have "float_ge0 (Listing.price payload)"
      using Inr by (rule Listing_validate_Inr [THEN get_float_ge0_Some])
    ultimately show ?thesis by blast
  qed
qed

theorem listing_price_nonnegative_witness:
  "Listing_validate email_ok url_ok (raw_listing (999 / 100)) = Inr listing0 \<and>
   float_ge0 (Listing.price listing0) \<and>
   map_of (raw_listing (- 1)) ''price'' = Some (PFloat (Finite (- 1))) \<and>
   \<not> float_ge0 (Finite (- 1)) \<and> (- 1 :: rat) < 0 \<and>
   Listing_validate email_ok url_ok (raw_listing (- 1)) = Inl ValidationError \<and>
   post_api_listings email_ok url_ok (raw_listing (- 1)) store0 = (Inl ValidationError, store0) \<and>
   post_api_listings email_ok url_ok (raw_listing (999 / 100)) store0 = (Inr out0, store1) \<and>
   AList.update ''_id'' (POid (oid_of 0)) (Listing_model_dump listing0) \<in> set (collections store1 ''listing'') \<and>
   AList.update ''_id'' (POid (oid_of 0)) (Listing_model_dump listing0) \<notin> set (collections store0 ''listing'') \<and>
   (\<exists>p. map_of (AList.update ''_id'' (POid (oid_of 0)) (Listing_model_dump listing0)) ''price''
          = Some (PFloat p) \<and> float_ge0 p)"
proof -
  let ?d = "AList.update ''_id'' (POid (oid_of 0)) (Listing_model_dump listing0)"
  have v: "Listing_validate email_ok url_ok (raw_listing (999 / 100)) = Inr listing0"
    by (simp add: Listing_validate_def raw_listing_def float_unmodelled_def get_str_def
        get_float_ge0_def get_float_def get_str_list_def get_email_def get_opt_url_def
        email_ok_def listing0_def)
  have b1: "map_of (raw_listing (- 1)) ''price'' = Some (PFloat (Finite (- 1)))"
    by (simp add: raw_listing_def)
  have b2: "\<not> float_ge0 (Finite (- 1))" by simp
  have b3: "(- 1 :: rat) < 0" by simp
  have p: "post_api_listings email_ok url_ok (raw_listing (999 / 100)) store0 = (Inr out0, store1)"
    by (simp add: post_api_listings_def v create_listing0)
  have m1: "?d \<in> set (collections store1 ''listing'')" by (simp add: store1_listings)
  have m2: "?d \<notin> set (collections store0 ''listing'')" by (simp add: store0_def)
  note t1 = listing_price_nonnegative [where email = email_ok and url = url_ok
      and raw = "raw_listing (999 / 100)" and payload = listing0 and s = store0
      and res = "Inr out0" and s' = store1 and d = ?d]
  note t2 = listing_price_nonnegative [where email = email_ok and url = url_ok
      and raw = "raw_listing (- 1)" and f = "Finite (- 1)" and r = "- 1" and s = store0]
  note c1 = t1 [THEN conjunct1, THEN mp, OF v]
  note c2 = t2 [THEN conjunct2, THEN conjunct1, THEN mp, OF conjI [OF b1 b2]]
  note c4 = t1 [THEN conjunct2, THEN conjunct2, THEN conjunct2, THEN mp,
      OF conjI [OF p conjI [OF m1 m2]]]
  from v c1 b1 b2 b3 c2 [THEN conjunct1] c2 [THEN conjunct2] p m1 m2 c4
  show ?thesis by (intro conjI)
qed

end
